theory Spec2Isabelle
  imports Complex_Main
begin

section \<open>The video synthesizer of modules/video_synthesizer.py\<close>

text \<open>
  Python's unbounded ints are \<open>int\<close>. Python floats are modelled as exact reals (no
  rounding of the arithmetic) in the motion effect and in the duration check. In
  \<open>_process_resolution\<close> a float product is truncated to an integer, so that the
  rounding of the float arithmetic decides the result: there every operation rounds to the
  nearest double. An attribute that may be absent or hold Python's None is an
  option, None standing for both: every test of the source that reads such an attribute
  (\<open>not hasattr(x, 'a') or not x.a\<close>) sends both to the same branch.
\<close>

subsection \<open>Configuration\<close>

text \<open>The fields of \<open>Settings\<close> that the synthesizer reads.\<close>

record settings =
  MAX_VIDEO_LENGTH :: int
  DURATION_TOLERANCE :: real
  OUTPUT_RESOLUTION :: "int \<times> int"
  OUTPUT_DIR :: string

definition default_settings :: settings where
  "default_settings =
     \<lparr>MAX_VIDEO_LENGTH = 180, DURATION_TOLERANCE = 1 / 2,
      OUTPUT_RESOLUTION = (1024, 1024), OUTPUT_DIR = ''output''\<rparr>"

record KenBurnsConfig =
  zoom_range :: "real \<times> real"
  pan_range :: "real \<times> real"
  direction :: string

definition default_KenBurnsConfig :: KenBurnsConfig where
  "default_KenBurnsConfig =
     \<lparr>zoom_range = (1, 12 / 10), pan_range = (- (1 / 2), 1 / 2), direction = ''random''\<rparr>"

subsection \<open>The random source\<close>

text \<open>
  The module-level generator of Python's \<open>random\<close> is a hidden state. It is modelled
  by the sequence of what its successive calls are going to hand out, whichever method
  makes the call, each written as a fraction in \<open>[0, 1)\<close>; a call takes the first one
  and leaves the remaining sequence. For \<open>random.uniform(a, b)\<close>, which is
  \<open>a + (b - a) * random()\<close>, the fraction is the value of \<open>random()\<close>. For
  \<open>random.choice(seq)\<close> the fraction \<open>r\<close> stands for the index
  \<open>\<lfloor>r * len(seq)\<rfloor>\<close> that the call produced: nothing is said about how the
  generator computes an index from its bits.
\<close>

type_synonym rng = "nat \<Rightarrow> real"

definition random_uniform :: "real \<times> real \<Rightarrow> rng \<Rightarrow> real \<times> rng" where
  "random_uniform r g = (fst r + (snd r - fst r) * g 0, \<lambda>n. g (Suc n))"

definition random_choice :: "'a list \<Rightarrow> rng \<Rightarrow> 'a \<times> rng" where
  "random_choice xs g =
     (xs ! min (nat \<lfloor>g 0 * real (length xs)\<rfloor>) (length xs - 1), \<lambda>n. g (Suc n))"

subsection \<open>The motion effect: the closures of \<open>_apply_enhanced_ken_burns\<close>\<close>

text \<open>
  The three inner functions close over \<open>duration\<close>, \<open>config\<close> and the local
  \<open>direction\<close> (the configured one, or the one chosen for \<open>random\<close>); here these are
  leading parameters, the local direction under the name \<open>resolved\<close>. The enclosing
  method creates the closures only after it has checked that \<open>clip.duration\<close> is
  truthy, so \<open>duration\<close> is never 0 where the source divides by it.
\<close>

definition ease_in_out :: "real \<Rightarrow> real \<Rightarrow> real" where
  "ease_in_out duration t =
     (let t = t / duration in
      if t < 1 / 2 then 2 * t * t
      else let t = t - 1 in 1 - 2 * t * t)"

definition zoom_effect :: "KenBurnsConfig \<Rightarrow> string \<Rightarrow> real \<Rightarrow> real \<Rightarrow> real" where
  "zoom_effect config resolved duration t =
     (let (zoom_start, zoom_end) = zoom_range config;
          (zoom_start, zoom_end) =
             (if resolved = ''out'' then (zoom_end, zoom_start) else (zoom_start, zoom_end));
          progress = ease_in_out duration t
      in zoom_start + (zoom_end - zoom_start) * progress)"

text \<open>\<open>pan_effect\<close> reads the random source at every call, so it takes and returns it.\<close>

definition pan_effect :: "KenBurnsConfig \<Rightarrow> real \<Rightarrow> real \<Rightarrow> rng \<Rightarrow> (real \<times> real) \<times> rng" where
  "pan_effect config duration t g =
     (let progress = ease_in_out duration t;
          (ux, g) = random_uniform (pan_range config) g;
          pan_x = ux * progress;
          (uy, g) = random_uniform (pan_range config) g;
          pan_y = uy * progress
      in ((pan_x, pan_y), g))"

subsection \<open>Exceptions, clips and the event log\<close>

text \<open>
  The type \<open>exn\<close> stands for what a call can raise: the instances of Python's class
  \<open>Exception\<close>, which \<open>except Exception\<close> catches, and \<open>KeyboardInterrupt\<close>
  and \<open>SystemExit\<close>, which derive from \<open>BaseException\<close> only and pass such a
  clause. A \<open>VideoProcessingError\<close> carries its message as a \<open>cause\<close>, with the
  values that the source formats into the text.
\<close>

datatype exn =
    VideoProcessingError cause
  | ZeroDivisionError
  | ValueError
  | LibraryError string
  | KeyboardInterrupt
  | SystemExit
and cause =
    ImageFileNotFound string
  | AudioFileNotFound string
  | ImageFileEmpty string
  | AudioFileEmpty string
  | InvalidImageDimensions string
  | FailedToValidateImage exn
  | FailedToLoadImage
  | FailedToLoadAudio
  | InvalidAudioMissingDuration
  | AudioDurationExceeds real int real
  | InvalidImageClip
  | KenBurnsDurationNotSet

fun is_Exception :: "exn \<Rightarrow> bool" where
  "is_Exception KeyboardInterrupt = False"
| "is_Exception SystemExit = False"
| "is_Exception _ = True"

text \<open>
  A clip of the media library, as far as the synthesizer reads and sets it: what it shows,
  its \<open>size\<close> attribute (a sequence whose entries may be None), its \<open>duration\<close> and its
  position in a composition. \<open>Zeros\<close> is the black picture \<open>np.zeros((h, w, 3))\<close>.
\<close>

datatype clip =
  Clip (clip_content: content) (clip_size: "int option list option")
       (clip_duration: "real option") (clip_pos: "int \<times> int")
and content = FromFile string | Zeros | Layers "clip list"


text \<open>
  What the library does with a clip, as far as the source relies on it: \<open>resize\<close> to a
  given size yields a clip of that size (\<open>with_size\<close>), and raises ValueError when a
  side of that size is below 1; \<open>ImageClip(array, duration=d)\<close> on an array of
  shape \<open>(h, w, 3)\<close> has size \<open>(w, h)\<close>; a \<open>CompositeVideoClip\<close> without an explicit
  size takes the size of its first clip, and the latest end of its clips as duration when
  all of them have one.
\<close>

definition with_size :: "clip \<Rightarrow> int \<times> int \<Rightarrow> clip" where
  "with_size c new_size =
     Clip (clip_content c) (Some [Some (fst new_size), Some (snd new_size)])
          (clip_duration c) (clip_pos c)"

definition resize :: "clip \<Rightarrow> int \<times> int \<Rightarrow> exn + clip" where
  "resize c new_size =
     (if fst new_size < 1 \<or> snd new_size < 1 then Inl ValueError
      else Inr (with_size c new_size))"

definition set_position :: "clip \<Rightarrow> int \<times> int \<Rightarrow> clip" where
  "set_position c p = Clip (clip_content c) (clip_size c) (clip_duration c) p"


definition ImageClip_zeros :: "int \<Rightarrow> int \<Rightarrow> real option \<Rightarrow> clip" where
  "ImageClip_zeros h w d = Clip Zeros (Some [Some w, Some h]) d (0, 0)"

fun latest_end :: "clip list \<Rightarrow> real option" where
  "latest_end [] = None"
| "latest_end [c] = clip_duration c"
| "latest_end (c # cs) =
     (case (clip_duration c, latest_end cs) of
        (Some a, Some b) \<Rightarrow> Some (max a b)
      | _ \<Rightarrow> None)"

definition CompositeVideoClip :: "clip \<Rightarrow> clip list \<Rightarrow> clip" where
  "CompositeVideoClip c cs = Clip (Layers (c # cs)) (clip_size c) (latest_end (c # cs)) (0, 0)"

text \<open>
  The clip that \<open>_apply_enhanced_ken_burns\<close> returns: the clip it was given, with the
  zoom closure as its size function and the pan closure as its position function. The final
  video is the composition of that one layer with the audio track.
\<close>

record animated_clip =
  base :: clip
  resize_by :: "real \<Rightarrow> real"
  position_by :: "real \<Rightarrow> rng \<Rightarrow> (real \<times> real) \<times> rng"


text \<open>
  What a call leaves behind: the records written to the logger, in order, and, for the
  properties about resources, the constructor calls that returned a clip, the calls of
  \<open>close\<close> and the call of \<open>write_videofile\<close>.
\<close>

datatype handle = ImageHandle | AudioHandle

datatype level = INFO | WARNING | ERROR

datatype message =
    ImageDimensions "int option list option"
  | ProcessingImageResolution int int int int
  | SetImageDuration real
  | ApplyingKenBurns real
  | WritingVideoFile
  | SuccessfullyCreatedVideo string
  | ErrorClosingImageClip exn
  | ErrorClosingAudioClip exn
  | VideoProcessingErrorLogged exn
  | UnexpectedErrorLogged exn

datatype event =
    Opened handle
  | CloseCalled handle
  | WriteVideofileCalled string
  | Log level message

text \<open>
  A piece of code either returns a value or raises, and leaves its events:
  \<open>Inl\<close> is the raised exception.
\<close>

type_synonym 'a run = "(exn + 'a) \<times> event list"

definition returns :: "'a \<Rightarrow> 'a run" where
  "returns a = (Inr a, [])"

definition raise :: "exn \<Rightarrow> 'a run" where
  "raise e = (Inl e, [])"

definition emit :: "event \<Rightarrow> unit run" where
  "emit ev = (Inr (), [ev])"

definition call :: "exn + 'a \<Rightarrow> 'a run" where
  "call r = (r, [])"

definition and_then :: "'a run \<Rightarrow> ('a \<Rightarrow> 'b run) \<Rightarrow> 'b run" where
  "and_then m f =
     (case m of
        (Inl e, evs) \<Rightarrow> (Inl e, evs)
      | (Inr a, evs) \<Rightarrow> (let (r, evs') = f a in (r, evs @ evs')))"

text \<open>
  \<open>try: m except Exception as e: h e\<close>, which lets an exception outside
  \<open>Exception\<close> pass, and \<open>try: m finally: fin\<close>.
\<close>

definition try_except :: "'a run \<Rightarrow> (exn \<Rightarrow> 'a run) \<Rightarrow> 'a run" where
  "try_except m h =
     (case m of
        (Inl e, evs) \<Rightarrow>
          if is_Exception e then (let (r, evs') = h e in (r, evs @ evs')) else (Inl e, evs)
      | (Inr a, evs) \<Rightarrow> (Inr a, evs))"

definition try_finally :: "'a run \<Rightarrow> unit run \<Rightarrow> 'a run" where
  "try_finally m fin =
     (case fin of
        (Inl e, evs') \<Rightarrow> (Inl e, snd m @ evs')
      | (Inr _, evs') \<Rightarrow> (fst m, snd m @ evs'))"


subsection \<open>The environment\<close>


subsection \<open>Helpers standing for Python built-ins\<close>

text \<open>\<open>int(x)\<close> on a float truncates towards zero.\<close>

definition py_int :: "real \<Rightarrow> int" where
  "py_int x = (if 0 \<le> x then \<lfloor>x\<rfloor> else \<lceil>x\<rceil>)"

text \<open>
  Double precision: \<open>double x\<close> is the double nearest to \<open>x\<close>, a multiple of
  \<open>2 ^ (e - 52)\<close> for the exponent \<open>e = \<lfloor>log\<^sub>2 |x|\<rfloor>\<close>, a tie going to the even
  multiple. The exponent is not bounded: the sizes of pictures are far from the ends of
  the range of a double. \<open>truediv\<close> is \<open>/\<close> on two ints, \<open>int_times_float\<close>
  is \<open>*\<close> on an int and a float, which converts the int first.
\<close>

fun bit_length :: "nat \<Rightarrow> nat" where
  "bit_length n = (if n = 0 then 0 else Suc (bit_length (n div 2)))"

declare bit_length.simps [simp del]

definition floor_log2 :: "real \<Rightarrow> int" where
  "floor_log2 x =
     (if 1 \<le> x then int (bit_length (nat \<lfloor>x\<rfloor>)) - 1
      else - int (bit_length (nat (\<lceil>1 / x\<rceil> - 1))))"

definition pow2 :: "int \<Rightarrow> real" where
  "pow2 e = (if 0 \<le> e then 2 ^ nat e else 1 / 2 ^ nat (- e))"

definition round_half_even :: "real \<Rightarrow> int" where
  "round_half_even x =
     (let f = \<lfloor>x\<rfloor>; d = x - real_of_int f
      in if d < 1 / 2 then f else if 1 / 2 < d then f + 1
         else if even f then f else f + 1)"

definition double :: "real \<Rightarrow> real" where
  "double x =
     (if x = 0 then 0
      else let e = floor_log2 \<bar>x\<bar> - 52;
               m = round_half_even (\<bar>x\<bar> / pow2 e)
           in sgn x * real_of_int m * pow2 e)"

definition truediv :: "int \<Rightarrow> int \<Rightarrow> real" where
  "truediv a b = double (real_of_int a / real_of_int b)"

definition int_times_float :: "int \<Rightarrow> real \<Rightarrow> real" where
  "int_times_float i x = double (double (real_of_int i) * x)"





text \<open>
  \<open>not x.size or None in x.size\<close>, preceded by \<open>not hasattr(x, 'size')\<close> where the
  source has it; and \<open>not x.duration\<close>, which holds for None and for 0.
\<close>

definition invalid_size :: "int option list option \<Rightarrow> bool" where
  "invalid_size s = (case s of None \<Rightarrow> True | Some xs \<Rightarrow> xs = [] \<or> None \<in> set xs)"


subsection \<open>The methods of \<open>VideoSynthesizer\<close>\<close>





definition process_resolution :: "settings \<Rightarrow> clip \<Rightarrow> clip run" where
  "process_resolution S img =
     (let (target_w, target_h) = OUTPUT_RESOLUTION S in
      if invalid_size (clip_size img) then raise (VideoProcessingError InvalidImageClip)
      else
        (case clip_size img of
           Some [Some img_w, Some img_h] \<Rightarrow>
             and_then
               (emit (Log INFO (ProcessingImageResolution img_w img_h target_w target_h)))
               (\<lambda>_.
                 if img_w = 0 then raise ZeroDivisionError
                 else let scale_w = truediv target_w img_w in
                 if img_h = 0 then raise ZeroDivisionError
                 else let scale_h = truediv target_h img_h;
                   scale = min scale_w scale_h;
                   new_size = (py_int (int_times_float img_w scale),
                               py_int (int_times_float img_h scale))
                 in and_then (call (resize img new_size)) (\<lambda>img.
                    if new_size \<noteq> (target_w, target_h) then
                      let padded = ImageClip_zeros target_h target_w (clip_duration img);
                          x = (target_w - fst new_size) div 2;
                          y = (target_h - snd new_size) div 2;
                          img = set_position img (x, y)
                      in returns (CompositeVideoClip padded [img])
                    else returns img))
         | _ \<Rightarrow> raise ValueError))"

definition apply_enhanced_ken_burns ::
  "clip \<Rightarrow> KenBurnsConfig option \<Rightarrow> rng \<Rightarrow> (animated_clip \<times> rng) run" where
  "apply_enhanced_ken_burns clip config g =
     (case clip_duration clip of
        None \<Rightarrow> raise (VideoProcessingError KenBurnsDurationNotSet)
      | Some duration \<Rightarrow>
          if duration = 0 then raise (VideoProcessingError KenBurnsDurationNotSet)
          else
            let config = (case config of None \<Rightarrow> default_KenBurnsConfig | Some c \<Rightarrow> c)
            in and_then (emit (Log INFO (ApplyingKenBurns duration))) (\<lambda>_.
              let (resolved, g) =
                    (if direction config = ''random'' then random_choice [''in'', ''out''] g
                     else (direction config, g))
              in returns
                   (\<lparr>base = clip,
                     resize_by = zoom_effect config resolved duration,
                     position_by = pan_effect config duration\<rparr>, g)))"






subsection \<open>Values used in the examples\<close>

text \<open>A random source whose first draws are 1/4 and 3/4, all later ones 1/2.\<close>

definition example_draws :: rng where
  "example_draws n = (if n = 0 then 1 / 4 else if n = 1 then 3 / 4 else 1 / 2)"







text \<open>
  The new size in the words of the specification, which rounds to the nearest integer
  where the source truncates, here on exact quotients and products. (\<open>round\<close> takes a
  half upwards; the examples below have no half.)
\<close>

definition spec_new_size :: "int \<times> int \<Rightarrow> int \<times> int \<Rightarrow> int \<times> int" where
  "spec_new_size target sz =
     (let scale = min (real_of_int (fst target) / real_of_int (fst sz))
                      (real_of_int (snd target) / real_of_int (snd sz))
      in (round (real_of_int (fst sz) * scale), round (real_of_int (snd sz) * scale)))"

text \<open>The easing curve in the words of the specification, on the normalised time \<open>u\<close>.\<close>

definition spec_e :: "real \<Rightarrow> real" where
  "spec_e u = (if u < 1 / 2 then 2 * u\<^sup>2 else 1 - 2 * (1 - u)\<^sup>2)"

section \<open>Properties\<close>

subsection \<open>Running code: returning, raising, logging\<close>

lemma and_then_Inr: "and_then (Inr a, evs) f = (fst (f a), evs @ snd (f a))"
  by (simp add: and_then_def split: prod.splits)

lemma and_then_Inl: "and_then (Inl e, evs) f = (Inl e, evs)"
  by (simp add: and_then_def)

lemma try_except_Inr: "try_except (Inr a, evs) h = (Inr a, evs)"
  by (simp add: try_except_def)

lemma try_except_Inl:
  "try_except (Inl e, evs) h =
     (if is_Exception e then (fst (h e), evs @ snd (h e)) else (Inl e, evs))"
  by (simp add: try_except_def split: prod.splits)

lemma try_finally_Inr: "try_finally m (Inr u, evs) = (fst m, snd m @ evs)"
  by (simp add: try_finally_def)

lemmas run_simps = returns_def raise_def emit_def call_def
  and_then_Inr and_then_Inl try_except_Inr try_except_Inl try_finally_Inr

subsection \<open>The easing curve and the zoom\<close>

lemma ease_in_out_spec_e: "ease_in_out d t = spec_e (t / d)"
proof -
  have sq: "(x - 1) * (x - 1) = (1 - x) * (1 - x)" for x :: real
    by (simp add: algebra_simps)
  have "2 * (t / d - 1) * (t / d - 1) = 2 * ((1 - t / d) * (1 - t / d))"
    using sq [of "t / d"] by (simp only: mult.assoc)
  then show ?thesis
    unfolding ease_in_out_def spec_e_def Let_def power2_eq_square
    by (simp only: mult.assoc)
qed

lemma spec_e_mono:
  assumes "0 \<le> u" "u \<le> v" "v \<le> 1"
  shows "spec_e u \<le> spec_e v"
proof -
  consider (low) "v < 1 / 2" | (mixed) "u < 1 / 2" "1 / 2 \<le> v" | (high) "1 / 2 \<le> u"
    by linarith
  then show ?thesis
  proof cases
    case low
    then have "u < 1 / 2" using assms by linarith
    moreover have "u\<^sup>2 \<le> v\<^sup>2" using assms by (intro power_mono) auto
    ultimately show ?thesis using low by (simp add: spec_e_def)
  next
    case mixed
    have "u\<^sup>2 \<le> (1 / 2)\<^sup>2" using assms mixed by (intro power_mono) auto
    moreover have "(1 - v)\<^sup>2 \<le> (1 / 2)\<^sup>2" using assms mixed by (intro power_mono) auto
    ultimately show ?thesis using mixed by (simp add: spec_e_def power2_eq_square)
  next
    case high
    then have "1 / 2 \<le> v" using assms by linarith
    moreover have "(1 - v)\<^sup>2 \<le> (1 - u)\<^sup>2" using assms by (intro power_mono) auto
    ultimately show ?thesis using high by (simp add: spec_e_def)
  qed
qed

text \<open>
  Claim C2. The easing of the motion engine is the curve of the specification applied to
  \<open>t / duration\<close>: \<open>2u\<^sup>2\<close> below one half and \<open>1 - 2(1 - u)\<^sup>2\<close> from one half on. It is 0 at
  \<open>t = 0\<close>, one half at half the duration and 1 at \<open>t = duration\<close>, and it does not decrease
  while \<open>t / duration\<close> runs through \<open>[0, 1]\<close>. So the zoom starts at \<open>zoom_range[0]\<close> and ends
  at \<open>zoom_range[1]\<close> for direction \<open>in\<close>, and the two ends are swapped for \<open>out\<close>.
\<close>

theorem C2_easing_and_zoom_endpoints:
  assumes "duration \<noteq> 0"
  shows "ease_in_out duration t = spec_e (t / duration)
    \<and> ease_in_out duration 0 = 0
    \<and> ease_in_out duration duration = 1
    \<and> ease_in_out duration (duration / 2) = 1 / 2
    \<and> (0 \<le> s / duration \<and> s / duration \<le> t / duration \<and> t / duration \<le> 1
           \<longrightarrow> ease_in_out duration s \<le> ease_in_out duration t)
    \<and> zoom_effect (config\<lparr>zoom_range := (za, zb)\<rparr>) ''in'' duration 0 = za
    \<and> zoom_effect (config\<lparr>zoom_range := (za, zb)\<rparr>) ''in'' duration duration = zb
    \<and> zoom_effect (config\<lparr>zoom_range := (za, zb)\<rparr>) ''out'' duration 0 = zb
    \<and> zoom_effect (config\<lparr>zoom_range := (za, zb)\<rparr>) ''out'' duration duration = za"
proof -
  have e0: "ease_in_out duration 0 = 0"
    by (simp add: ease_in_out_def)
  have e1: "ease_in_out duration duration = 1"
    using assms by (simp add: ease_in_out_def)
  have eh: "ease_in_out duration (duration / 2) = 1 / 2"
    using assms by (simp add: ease_in_out_def)
  have mono: "0 \<le> s / duration \<and> s / duration \<le> t / duration \<and> t / duration \<le> 1
           \<longrightarrow> ease_in_out duration s \<le> ease_in_out duration t"
    by (simp only: ease_in_out_spec_e) (blast intro: spec_e_mono)
  have z: "zoom_effect (config\<lparr>zoom_range := (za, zb)\<rparr>) ''in'' duration 0 = za"
    "zoom_effect (config\<lparr>zoom_range := (za, zb)\<rparr>) ''in'' duration duration = zb"
    "zoom_effect (config\<lparr>zoom_range := (za, zb)\<rparr>) ''out'' duration 0 = zb"
    "zoom_effect (config\<lparr>zoom_range := (za, zb)\<rparr>) ''out'' duration duration = za"
    by (simp_all add: zoom_effect_def e0 e1)
  from e0 e1 eh mono z ease_in_out_spec_e [of duration t] show ?thesis
    by blast
qed

theorem C2_easing_and_zoom_endpoints_witness:
  "(10::real) \<noteq> 0
    \<and> ease_in_out 10 4 = spec_e (4 / 10)
    \<and> ease_in_out 10 0 = 0 \<and> ease_in_out 10 10 = 1 \<and> ease_in_out 10 (10 / 2) = 1 / 2
    \<and> ease_in_out 10 2 \<le> ease_in_out 10 4
    \<and> zoom_effect (default_KenBurnsConfig\<lparr>zoom_range := (1, 12 / 10)\<rparr>) ''in'' 10 0 = 1
    \<and> zoom_effect (default_KenBurnsConfig\<lparr>zoom_range := (1, 12 / 10)\<rparr>) ''in'' 10 10 = 12 / 10
    \<and> zoom_effect (default_KenBurnsConfig\<lparr>zoom_range := (1, 12 / 10)\<rparr>) ''out'' 10 0 = 12 / 10
    \<and> zoom_effect (default_KenBurnsConfig\<lparr>zoom_range := (1, 12 / 10)\<rparr>) ''out'' 10 10 = 1"
  using C2_easing_and_zoom_endpoints [where duration = 10 and t = 4 and s = 2
      and config = default_KenBurnsConfig and za = 1 and zb = "12 / 10"]
  by simp

lemma spec_e_low: "u < 1 / 2 \<Longrightarrow> spec_e u = 2 * u\<^sup>2"
  by (simp add: spec_e_def)

lemma spec_e_high: "1 / 2 \<le> u \<Longrightarrow> spec_e u = 1 - 2 * (u - 1)\<^sup>2"
  by (simp add: spec_e_def power2_commute [of u 1])

text \<open>
  Claim C7, as stated: the easing clamps \<open>t / duration\<close> to \<open>[0, 1]\<close>, so a sample
  before 0 equals the sample at 0 and a sample after the duration equals the one at the
  duration. The source does not clamp: with a duration of 10 the eased progress at
  \<open>t = -5\<close> and at \<open>t = 15\<close> is one half, not 0 and 1.
\<close>

theorem C7_no_clamp_counterexample:
  "ease_in_out 10 (- 5) \<noteq> ease_in_out 10 0 \<and> ease_in_out 10 15 \<noteq> ease_in_out 10 10"
  by (simp add: ease_in_out_def)

text \<open>
  Claim C7, amended. The easing normalises \<open>u = t / duration\<close> and does not clamp it.
  For a positive duration: before 0 the eased progress is \<open>2u\<^sup>2\<close>, not held at the value
  of \<open>t = 0\<close> and nowhere below it; after the duration it is \<open>1 - 2(u - 1)\<^sup>2\<close>, not held
  at the value of \<open>t = duration\<close> and nowhere above it; for \<open>t\<close> from 0 to the duration
  it lies in \<open>[0, 1]\<close>.
\<close>

theorem C7_easing_not_clamped:
  assumes "0 < duration"
  shows "(t < 0 \<longrightarrow> ease_in_out duration t = 2 * (t / duration)\<^sup>2
                  \<and> ease_in_out duration 0 \<le> ease_in_out duration t)
       \<and> (duration < t \<longrightarrow> ease_in_out duration t = 1 - 2 * (t / duration - 1)\<^sup>2
                  \<and> ease_in_out duration t \<le> ease_in_out duration duration)
       \<and> (0 \<le> t \<and> t \<le> duration \<longrightarrow>
             0 \<le> ease_in_out duration t \<and> ease_in_out duration t \<le> 1)"
proof -
  have e0: "ease_in_out duration 0 = 0"
    by (simp add: ease_in_out_def)
  have e1: "ease_in_out duration duration = 1"
    using assms by (simp add: ease_in_out_def)
  have neg: "ease_in_out duration t = 2 * (t / duration)\<^sup>2
               \<and> ease_in_out duration 0 \<le> ease_in_out duration t" if "t < 0"
  proof -
    have "t / duration < 0" using that assms by (simp add: divide_neg_pos)
    then have "t / duration < 1 / 2" by linarith
    then have "ease_in_out duration t = 2 * (t / duration)\<^sup>2"
      by (simp only: ease_in_out_spec_e spec_e_low)
    then show ?thesis using e0 by simp
  qed
  have past: "ease_in_out duration t = 1 - 2 * (t / duration - 1)\<^sup>2
               \<and> ease_in_out duration t \<le> ease_in_out duration duration" if "duration < t"
  proof -
    have "1 < t / duration" using that assms by simp
    then have "1 / 2 \<le> t / duration" by linarith
    then have "ease_in_out duration t = 1 - 2 * (t / duration - 1)\<^sup>2"
      by (simp only: ease_in_out_spec_e spec_e_high)
    then show ?thesis using e1 by simp
  qed
  have inside: "0 \<le> ease_in_out duration t \<and> ease_in_out duration t \<le> 1"
    if "0 \<le> t \<and> t \<le> duration"
  proof -
    have u: "0 \<le> t / duration" "t / duration \<le> 1" using that assms by simp_all
    have "spec_e 0 \<le> spec_e (t / duration)" "spec_e (t / duration) \<le> spec_e 1"
      using u by (simp_all add: spec_e_mono)
    then show ?thesis by (simp add: ease_in_out_spec_e spec_e_def)
  qed
  from neg past inside show ?thesis by blast
qed

theorem C7_easing_not_clamped_witness:
  "(0::real) < 10
   \<and> ease_in_out 10 (- 5) = 2 * (- 5 / 10)\<^sup>2 \<and> ease_in_out 10 0 \<le> ease_in_out 10 (- 5)
   \<and> ease_in_out 10 15 = 1 - 2 * (15 / 10 - 1)\<^sup>2 \<and> ease_in_out 10 15 \<le> ease_in_out 10 10
   \<and> 0 \<le> ease_in_out 10 4 \<and> ease_in_out 10 4 \<le> 1"
  using C7_easing_not_clamped [of 10 "- 5"] C7_easing_not_clamped [of 10 15]
    C7_easing_not_clamped [of 10 4]
  by simp

subsection \<open>The direction and the pan\<close>

text \<open>
  Claim C10. The direction of a configuration is not validated. For every direction other
  than \<open>random\<close> and \<open>out\<close>, \<open>_apply_enhanced_ken_burns\<close> accepts the configuration
  (given a clip with a duration), draws nothing from the random source, and the zoom it
  installs is the one of direction \<open>in\<close>: from \<open>zoom_range[0]\<close> to \<open>zoom_range[1]\<close>,
  not swapped.
\<close>

theorem C10_direction_not_validated:
  assumes "direction config \<noteq> ''random''" and "direction config \<noteq> ''out''"
    and "clip_duration clip = Some d" and "d \<noteq> 0"
  shows "\<exists>anim. apply_enhanced_ken_burns clip (Some config) g =
                  (Inr (anim, g), [Log INFO (ApplyingKenBurns d)])
           \<and> resize_by anim = zoom_effect config ''in'' d
           \<and> (\<forall>t. resize_by anim t =
                  fst (zoom_range config)
                  + (snd (zoom_range config) - fst (zoom_range config)) * ease_in_out d t)"
  using assms
  by (auto simp add: apply_enhanced_ken_burns_def run_simps zoom_effect_def Let_def fun_eq_iff
        split: prod.splits)

theorem C10_direction_not_validated_witness:
  "\<exists>anim. apply_enhanced_ken_burns (Clip Zeros None (Some 10) (0, 0))
             (Some (default_KenBurnsConfig\<lparr>direction := ''zoom''\<rparr>)) example_draws =
             (Inr (anim, example_draws), [Log INFO (ApplyingKenBurns 10)])
      \<and> resize_by anim = zoom_effect (default_KenBurnsConfig\<lparr>direction := ''zoom''\<rparr>) ''in'' 10
      \<and> resize_by anim 0 = 1 \<and> resize_by anim 10 = 12 / 10"
proof -
  have h: "direction (default_KenBurnsConfig\<lparr>direction := ''zoom''\<rparr>) \<noteq> ''random''"
      "direction (default_KenBurnsConfig\<lparr>direction := ''zoom''\<rparr>) \<noteq> ''out''"
      "clip_duration (Clip Zeros None (Some 10) (0, 0)) = Some 10" "(10::real) \<noteq> 0"
    by simp_all
  from C10_direction_not_validated [OF h, of example_draws]
  obtain anim where a: "apply_enhanced_ken_burns (Clip Zeros None (Some 10) (0, 0))
             (Some (default_KenBurnsConfig\<lparr>direction := ''zoom''\<rparr>)) example_draws =
             (Inr (anim, example_draws), [Log INFO (ApplyingKenBurns 10)])"
     and b: "resize_by anim = zoom_effect (default_KenBurnsConfig\<lparr>direction := ''zoom''\<rparr>) ''in'' 10"
    by blast
  have "resize_by anim 0 = 1" "resize_by anim 10 = 12 / 10"
    by (simp_all add: b zoom_effect_def default_KenBurnsConfig_def ease_in_out_def)
  with a b show ?thesis by blast
qed

text \<open>
  Claim C1 says that the two pan targets are drawn once per render and held fixed, so that
  two evaluations of the pan at the same \<open>t\<close> agree. \<open>pan_effect\<close> calls
  \<open>random.uniform\<close> twice at every evaluation: at \<open>t = duration = 10\<close>, with the
  default pan range and the draws 1/4, 3/4, 1/2, 1/2, the first evaluation returns
  \<open>(-1/4, 1/4)\<close> and the second \<open>(0, 0)\<close>.
\<close>

theorem C1_pan_drawn_at_every_call:
  "fst (pan_effect default_KenBurnsConfig 10 10 example_draws) = (- (1 / 4), 1 / 4)
   \<and> fst (pan_effect default_KenBurnsConfig 10 10
             (snd (pan_effect default_KenBurnsConfig 10 10 example_draws))) = (0, 0)"
  by (simp add: pan_effect_def random_uniform_def ease_in_out_def default_KenBurnsConfig_def
        example_draws_def)

subsection \<open>The resolution\<close>

lemmas float_simps = truediv_def int_times_float_def double_def floor_log2_def pow2_def
  round_half_even_def bit_length.simps py_int_def Let_def

lemma example_new_size_800_600:
  "py_int (int_times_float 800 (min (truediv 1024 800) (truediv 1024 600))) = 1024"
  "py_int (int_times_float 600 (min (truediv 1024 800) (truediv 1024 600))) = 768"
  by (simp_all add: float_simps)

lemma example_new_size_1200_800:
  "py_int (int_times_float 1200 (min (truediv 1024 1200) (truediv 1024 800))) = 1024"
  "py_int (int_times_float 800 (min (truediv 1024 1200) (truediv 1024 800))) = 682"
  by (simp_all add: float_simps)

lemma example_new_size_49_49:
  "py_int (int_times_float 49 (truediv 1024 49)) = 1023"
  by (simp add: float_simps)

lemma example_new_size_2048_1:
  "py_int (int_times_float 2048 (min (truediv 1024 2048) (truediv 1024 1))) = 1024"
  "py_int (int_times_float 1 (min (truediv 1024 2048) (truediv 1024 1))) = 0"
  by (simp_all add: float_simps)

text \<open>
  Claim C8, as stated: the normalizer re-checks the dimensions defensively, so that a zero
  width or height is refused before anything is computed. The guard tests only for a
  missing, empty or None-holding size: a 0 x 600 image passes it, the line about the
  resolution is logged, and what ends the call is not the guard's VideoProcessingError but
  the ZeroDivisionError of the division by the width.
\<close>

theorem C8_guard_passes_zero_side_counterexample:
  "\<not> invalid_size (Some [Some 0, Some 600])
   \<and> process_resolution default_settings
        (Clip (FromFile ''a.png'') (Some [Some 0, Some 600]) None (0, 0)) =
      (Inl ZeroDivisionError, [Log INFO (ProcessingImageResolution 0 600 1024 1024)])
   \<and> process_resolution default_settings
        (Clip (FromFile ''a.png'') (Some [Some 0, Some 600]) None (0, 0)) \<noteq>
      (Inl (VideoProcessingError InvalidImageClip), [])"
  by (simp add: process_resolution_def invalid_size_def default_settings_def run_simps)

text \<open>
  Claim C8, amended. The defensive re-check of \<open>_process_resolution\<close> refuses a size
  that is missing, empty or holds None, with a VideoProcessingError and before anything is
  logged; it does not test for zero. For every source image whose width or height is zero
  the guard passes and the line about the resolution is logged; the call then raises
  ZeroDivisionError at the division by the zero side, so that no clip is returned.
\<close>

theorem C8_guard_then_division_by_zero:
  "(invalid_size (clip_size img) \<longrightarrow>
      process_resolution S img = (Inl (VideoProcessingError InvalidImageClip), []))
   \<and> (clip_size img = Some [Some img_w, Some img_h] \<and> (img_w = 0 \<or> img_h = 0) \<longrightarrow>
      \<not> invalid_size (clip_size img)
      \<and> process_resolution S img =
           (Inl ZeroDivisionError,
            [Log INFO (ProcessingImageResolution img_w img_h
                         (fst (OUTPUT_RESOLUTION S)) (snd (OUTPUT_RESOLUTION S)))]))"
  by (auto simp add: process_resolution_def invalid_size_def run_simps Let_def split: prod.splits)

theorem C8_guard_then_division_by_zero_witness:
  "process_resolution default_settings (Clip (FromFile ''a.png'') (Some [None, Some 600]) None (0, 0))
     = (Inl (VideoProcessingError InvalidImageClip), [])
   \<and> process_resolution default_settings (Clip (FromFile ''a.png'') (Some [Some 0, Some 600]) None (0, 0))
     = (Inl ZeroDivisionError, [Log INFO (ProcessingImageResolution 0 600 1024 1024)])
   \<and> process_resolution default_settings (Clip (FromFile ''a.png'') (Some [Some 800, Some 0]) None (0, 0))
     = (Inl ZeroDivisionError, [Log INFO (ProcessingImageResolution 800 0 1024 1024)])"
  using C8_guard_then_division_by_zero [where img = "Clip (FromFile ''a.png'') (Some [None, Some 600]) None (0, 0)"
      and S = default_settings]
    C8_guard_then_division_by_zero [where img = "Clip (FromFile ''a.png'') (Some [Some 0, Some 600]) None (0, 0)"
      and img_w = 0 and img_h = 600 and S = default_settings]
    C8_guard_then_division_by_zero [where img = "Clip (FromFile ''a.png'') (Some [Some 800, Some 0]) None (0, 0)"
      and img_w = 800 and img_h = 0 and S = default_settings]
  by (simp add: default_settings_def invalid_size_def)

text \<open>
  Claim C5, as stated: for every image with positive sides the new size is
  \<open>(round(img_w * scale), round(img_h * scale))\<close> and the result has the size of the
  canvas. The source takes \<open>int(...)\<close>, which truncates: a 1200 x 800 image on the
  1024 x 1024 canvas is resized to 1024 x 682, where rounding 682.67 gives 683. And a
  2048 x 1 image has the new size 1024 x 0, which the resize refuses: no image results.
\<close>

theorem C5_truncation_counterexample:
  "fst (process_resolution default_settings
          (Clip (FromFile ''a.png'') (Some [Some 1200, Some 800]) None (0, 0))) =
     Inr (CompositeVideoClip (ImageClip_zeros 1024 1024 None)
            [Clip (FromFile ''a.png'') (Some [Some 1024, Some 682]) None (0, 171)])
   \<and> spec_new_size (1024, 1024) (1200, 800) = (1024, 683)
   \<and> fst (process_resolution default_settings
          (Clip (FromFile ''a.png'') (Some [Some 2048, Some 1]) None (0, 0))) = Inl ValueError"
  by (simp add: process_resolution_def invalid_size_def run_simps Let_def default_settings_def
        example_new_size_1200_800 example_new_size_2048_1 resize_def with_size_def
        set_position_def spec_new_size_def round_def)

text \<open>
  Claim C5, amended. For every source image with positive width and height,
  \<open>_process_resolution\<close> computes \<open>scale = min(target_w / img_w, target_h / img_h)\<close>
  in float arithmetic and asks for the new size \<open>(int(img_w * scale), int(img_h * scale))\<close>,
  truncated, not rounded. When a side of the new size is below 1 the resize raises and
  there is no result. Otherwise the call returns the resized image when the new size
  equals the canvas, and else puts it at
  \<open>((target_w - new_w) // 2, (target_h - new_h) // 2)\<close> on a black clip of the size of
  the canvas; the result has size \<open>(target_w, target_h)\<close>.
\<close>

theorem C5_scale_truncate_and_pad:
  assumes "clip_size img = Some [Some img_w, Some img_h]"
    and "0 < img_w" and "0 < img_h"
    and "OUTPUT_RESOLUTION S = (target_w, target_h)"
    and "scale = min (truediv target_w img_w) (truediv target_h img_h)"
    and "new_size = (py_int (int_times_float img_w scale), py_int (int_times_float img_h scale))"
  shows "(1 \<le> fst new_size \<and> 1 \<le> snd new_size \<longrightarrow>
           (\<exists>out. process_resolution S img =
              (Inr out, [Log INFO (ProcessingImageResolution img_w img_h target_w target_h)])
            \<and> out = (if new_size = (target_w, target_h) then with_size img new_size
                     else CompositeVideoClip
                            (ImageClip_zeros target_h target_w (clip_duration img))
                            [set_position (with_size img new_size)
                               ((target_w - fst new_size) div 2,
                                (target_h - snd new_size) div 2)])
            \<and> clip_size out = Some [Some target_w, Some target_h]))
       \<and> (fst new_size < 1 \<or> snd new_size < 1 \<longrightarrow>
           process_resolution S img =
             (Inl ValueError,
              [Log INFO (ProcessingImageResolution img_w img_h target_w target_h)]))"
proof -
  have pre: "process_resolution S img =
      and_then (emit (Log INFO (ProcessingImageResolution img_w img_h target_w target_h)))
        (\<lambda>_. and_then (call (resize img new_size)) (\<lambda>img'.
           if new_size \<noteq> (target_w, target_h) then
             returns (CompositeVideoClip (ImageClip_zeros target_h target_w (clip_duration img'))
                        [set_position img'
                           ((target_w - fst new_size) div 2, (target_h - snd new_size) div 2)])
           else returns img'))"
    using assms
    by (simp add: process_resolution_def invalid_size_def Let_def cong del: if_weak_cong)
  have ok: "\<exists>out. process_resolution S img =
              (Inr out, [Log INFO (ProcessingImageResolution img_w img_h target_w target_h)])
            \<and> out = (if new_size = (target_w, target_h) then with_size img new_size
                     else CompositeVideoClip
                            (ImageClip_zeros target_h target_w (clip_duration img))
                            [set_position (with_size img new_size)
                               ((target_w - fst new_size) div 2,
                                (target_h - snd new_size) div 2)])
            \<and> clip_size out = Some [Some target_w, Some target_h]"
    if "1 \<le> fst new_size \<and> 1 \<le> snd new_size"
  proof -
    have r: "resize img new_size = Inr (with_size img new_size)"
      using that by (simp add: resize_def)
    have d: "clip_duration (with_size img new_size) = clip_duration img"
      by (simp add: with_size_def)
    have run: "process_resolution S img =
        (Inr (if new_size = (target_w, target_h) then with_size img new_size
              else CompositeVideoClip
                     (ImageClip_zeros target_h target_w (clip_duration img))
                     [set_position (with_size img new_size)
                        ((target_w - fst new_size) div 2, (target_h - snd new_size) div 2)]),
         [Log INFO (ProcessingImageResolution img_w img_h target_w target_h)])"
      by (simp add: pre r d run_simps)
    have size: "clip_size (if new_size = (target_w, target_h) then with_size img new_size
              else CompositeVideoClip
                     (ImageClip_zeros target_h target_w (clip_duration img))
                     [set_position (with_size img new_size)
                        ((target_w - fst new_size) div 2, (target_h - snd new_size) div 2)])
          = Some [Some target_w, Some target_h]"
      by (auto simp add: with_size_def CompositeVideoClip_def ImageClip_zeros_def)
    from run size show ?thesis by blast
  qed
  have refused: "process_resolution S img =
             (Inl ValueError,
              [Log INFO (ProcessingImageResolution img_w img_h target_w target_h)])"
    if "fst new_size < 1 \<or> snd new_size < 1"
  proof -
    have "resize img new_size = Inl ValueError"
      using that by (simp add: resize_def)
    then show ?thesis by (simp add: pre run_simps)
  qed
  from ok refused show ?thesis by blast
qed

theorem C5_scale_truncate_and_pad_witness:
  "process_resolution default_settings
      (Clip (FromFile ''a.png'') (Some [Some 800, Some 600]) None (0, 0)) =
     (Inr (CompositeVideoClip (ImageClip_zeros 1024 1024 None)
             [Clip (FromFile ''a.png'') (Some [Some 1024, Some 768]) None (0, 128)]),
      [Log INFO (ProcessingImageResolution 800 600 1024 1024)])
   \<and> process_resolution default_settings
      (Clip (FromFile ''a.png'') (Some [Some 49, Some 49]) None (0, 0)) =
     (Inr (CompositeVideoClip (ImageClip_zeros 1024 1024 None)
             [Clip (FromFile ''a.png'') (Some [Some 1023, Some 1023]) None (0, 0)]),
      [Log INFO (ProcessingImageResolution 49 49 1024 1024)])
   \<and> process_resolution default_settings
      (Clip (FromFile ''a.png'') (Some [Some 2048, Some 1]) None (0, 0)) =
     (Inl ValueError, [Log INFO (ProcessingImageResolution 2048 1 1024 1024)])"
proof -
  have res: "OUTPUT_RESOLUTION default_settings = (1024, 1024)"
    by (simp add: default_settings_def)
  have a: "process_resolution default_settings
      (Clip (FromFile ''a.png'') (Some [Some 800, Some 600]) None (0, 0)) =
     (Inr (CompositeVideoClip (ImageClip_zeros 1024 1024 None)
             [Clip (FromFile ''a.png'') (Some [Some 1024, Some 768]) None (0, 128)]),
      [Log INFO (ProcessingImageResolution 800 600 1024 1024)])"
    using C5_scale_truncate_and_pad
      [where img = "Clip (FromFile ''a.png'') (Some [Some 800, Some 600]) None (0, 0)"
         and img_w = 800 and img_h = 600, OF _ _ _ res refl refl]
    by (simp add: example_new_size_800_600 with_size_def set_position_def)
  have b: "process_resolution default_settings
      (Clip (FromFile ''a.png'') (Some [Some 49, Some 49]) None (0, 0)) =
     (Inr (CompositeVideoClip (ImageClip_zeros 1024 1024 None)
             [Clip (FromFile ''a.png'') (Some [Some 1023, Some 1023]) None (0, 0)]),
      [Log INFO (ProcessingImageResolution 49 49 1024 1024)])"
    using C5_scale_truncate_and_pad
      [where img = "Clip (FromFile ''a.png'') (Some [Some 49, Some 49]) None (0, 0)"
         and img_w = 49 and img_h = 49, OF _ _ _ res refl refl]
    by (simp add: example_new_size_49_49 with_size_def set_position_def)
  have c: "process_resolution default_settings
      (Clip (FromFile ''a.png'') (Some [Some 2048, Some 1]) None (0, 0)) =
     (Inl ValueError, [Log INFO (ProcessingImageResolution 2048 1 1024 1024)])"
    using C5_scale_truncate_and_pad
      [where img = "Clip (FromFile ''a.png'') (Some [Some 2048, Some 1]) None (0, 0)"
         and img_w = 2048 and img_h = 1, OF _ _ _ res refl refl]
    by (simp add: example_new_size_2048_1)
  from a b c show ?thesis by blast
qed

subsection \<open>The clips are released\<close>













subsection \<open>The whole call\<close>






















subsection \<open>What the call can raise\<close>




















end
